theory Spec2Isabelle
  imports Main "HOL-Library.Word"
begin

section \<open>Layers of the CUDA backend (neural/cuda/layers.h)\<close>

text \<open>
  The header declares the layer classes of the backend. Each class holds device
  pointers to its weights and a few construction parameters; the tensors a layer
  reads and writes belong to the caller of \<open>Eval\<close>. The only member functions
  whose bodies are part of the header are the inline ones of \<open>BaseLayer\<close>:
  \<open>GetC\<close>, \<open>GetH\<close>, \<open>GetW\<close> and \<open>GetOutputSize\<close>. Constructors,
  \<open>LoadWeights\<close> and \<open>Eval\<close> are declared only.
\<close>

subsection \<open>Machine types\<close>

text \<open>
  The backend is built for 64-bit hosts: \<open>int\<close> has 32 bits and is read in two's
  complement (\<open>sint\<close>), \<open>size_t\<close> has 64 bits and is read unsigned (\<open>uint\<close>).
  Arithmetic on both wraps around. Pointers and library descriptors are opaque
  addresses, \<open>0\<close> standing for \<open>nullptr\<close>.
\<close>

type_synonym int32 = "32 word"
type_synonym size_t = "64 word"
type_synonym ptr = nat
type_synonym handle = nat

text \<open>
  Modelled from the spec: the instantiations of the template parameter \<open>DataType\<close>
  are not in the header. The spec names two element types, 32-bit and 16-bit floating
  point, of 4 and 2 bytes.
\<close>

datatype DataType = float | half

fun sizeof :: "DataType \<Rightarrow> size_t" where
  "sizeof float = 4"
| "sizeof half = 2"

subsection \<open>The classes as records\<close>

text \<open>
  A derived class is a record extending \<open>BaseLayer\<close>, so that a function on
  \<open>'a BaseLayer_scheme\<close> is a member function inherited by every layer type.
\<close>

record BaseLayer =
  cache_ :: ptr
  input_ :: ptr
  C :: int32
  H :: int32
  W :: int32
  nhwc_ :: bool

record ConvLayer = BaseLayer +
  c_input_ :: int32
  filter_size_ :: int32
  use_relu_ :: bool
  use_bias_ :: bool
  biases :: ptr
  weights :: ptr
  filter_desc_ :: handle
  conv_desc_ :: handle
  conv_algo_ :: handle
  bias_desc_ :: handle
  in_tensor_desc_ :: handle
  out_tensor_desc_ :: handle
  activation_ :: handle

record SoftMaxLayer = BaseLayer +
  out_tensor_desc_ :: handle

record FCLayer = BaseLayer +
  use_bias_ :: bool
  use_relu_ :: bool
  use_tanh_ :: bool
  use_sigmoid_ :: bool
  weights_ :: ptr
  biases_ :: ptr

record PolicyMapLayer = BaseLayer +
  used_size_ :: int32
  weights_ :: ptr

record SELayer = BaseLayer +
  w1_ :: ptr
  w1_t_ :: ptr
  b1_ :: ptr
  w2_ :: ptr
  w2_t_ :: ptr
  b2_ :: ptr
  bPrev_ :: ptr
  numFc1Out_ :: int32
  addPrevLayerBias_ :: bool

record Conv1Layer = BaseLayer +
  c_input_ :: int32
  use_relu_ :: bool
  use_bias_ :: bool
  use_gemm_ex_ :: bool
  biases_ :: ptr
  weights_ :: ptr

record ResidualBlock = BaseLayer +
  has_se_ :: bool
  se_k_ :: int32
  use_gemm_ex_ :: bool
  c_input_ :: int32
  first_block_ :: bool
  last_block_ :: bool
  biases0_ :: ptr
  biases1_ :: ptr
  transformed_weights0_ :: ptr
  transformed_weights1_ :: ptr
  w1_ :: ptr
  w2_ :: ptr
  b1_ :: ptr
  b2_ :: ptr

record FusedWinogradConvSELayer = BaseLayer +
  c_input_ :: int32
  use_relu_ :: bool
  use_bias_ :: bool
  skip_add_ :: bool
  has_se_ :: bool
  se_k_ :: int32
  use_gemm_ex_ :: bool
  biases_ :: ptr
  transformed_weights_ :: ptr
  w1_ :: ptr
  w2_ :: ptr
  b1_ :: ptr
  b2_ :: ptr

subsection \<open>The inline member functions of BaseLayer\<close>

definition GetC :: "'a BaseLayer_scheme \<Rightarrow> int32" where
  "GetC L = C L"

definition GetH :: "'a BaseLayer_scheme \<Rightarrow> int32" where
  "GetH L = H L"

definition GetW :: "'a BaseLayer_scheme \<Rightarrow> int32" where
  "GetW L = W L"

text \<open>
  \<open>sizeof(DataType) * N * C * H * W\<close>: the product is formed from the left in
  \<open>size_t\<close>, each \<open>int\<close> operand being converted to \<open>size_t\<close> (sign extension,
  \<open>scast\<close>) before it is multiplied.
\<close>

definition GetOutputSize :: "DataType \<Rightarrow> 'a BaseLayer_scheme \<Rightarrow> int32 \<Rightarrow> size_t" where
  "GetOutputSize dt L N = sizeof dt * scast N * scast (C L) * scast (H L) * scast (W L)"

subsection \<open>Example layers\<close>

text \<open>
  The fused convolution of the spec's scenario (256 channels on an 8 by 8 board), and
  a layer whose shape is far beyond any network, used to show wrap-around.
\<close>

definition conv256 :: FusedWinogradConvSELayer where
  "conv256 = \<lparr>cache_ = 0, input_ = 0, C = 256, H = 8, W = 8, nhwc_ = False,
     c_input_ = 256, use_relu_ = True, use_bias_ = True, skip_add_ = False,
     has_se_ = False, se_k_ = 0, use_gemm_ex_ = False, biases_ = 0,
     transformed_weights_ = 0, w1_ = 0, w2_ = 0, b1_ = 0, b2_ = 0\<rparr>"

definition huge_layer :: "int32 \<Rightarrow> BaseLayer" where
  "huge_layer d = \<lparr>cache_ = 0, input_ = 0, C = d, H = d, W = d, nhwc_ = False\<rparr>"

section \<open>The size of the output buffer\<close>

subsection \<open>The product behind GetOutputSize\<close>

lemma GetOutputSize_word_of_int:
  "GetOutputSize dt L N =
     word_of_int (uint (sizeof dt) * sint N * sint (C L) * sint (H L) * sint (W L))"
  unfolding GetOutputSize_def scast_eq
  by (simp only: wi_hom_mult [symmetric] word_of_int_uint)

lemma uint_GetOutputSize:
  "uint (GetOutputSize dt L N) =
     (uint (sizeof dt) * sint N * sint (C L) * sint (H L) * sint (W L)) mod 2 ^ 64"
proof -
  let ?p = "uint (sizeof dt) * sint N * sint (C L) * sint (H L) * sint (W L)"
  have "uint (word_of_int ?p :: size_t) = ?p mod 2 ^ LENGTH(64)"
    by (rule uint_word_of_int)
  then show ?thesis
    by (simp only: GetOutputSize_word_of_int) simp
qed

text \<open>Converting a sum of two \<open>int\<close>s to \<open>size_t\<close>, when the sum is an \<open>int\<close>.\<close>

lemma scast_add_no_overflow:
  fixes a b :: int32
  assumes "- (2 ^ 31) \<le> sint a + sint b" and "sint a + sint b < 2 ^ 31"
  shows "(scast (a + b) :: size_t) = scast a + scast b"
proof -
  have "sint (a + b) = signed_take_bit 31 (sint a + sint b)"
    by (simp add: sint_word_ariths)
  also have "\<dots> = sint a + sint b"
    using assms by (simp add: signed_take_bit_int_eq_self)
  finally have "sint (a + b) = sint a + sint b" .
  then have "(word_of_int (sint (a + b)) :: size_t) = word_of_int (sint a) + word_of_int (sint b)"
    by (simp only: wi_hom_add)
  then show ?thesis
    by (simp only: scast_eq)
qed

subsection \<open>C1: GetOutputSize and the byte count N * C * H * W * sizeof(element)\<close>

text \<open>
  C1, as the code has it. For every layer type (any extension of \<open>BaseLayer\<close>), either
  element type and every \<open>int\<close> N, the value returned by \<open>GetOutputSize(N)\<close> is the
  product \<open>N * C * H * W * sizeof(element)\<close> of the batch size, the shape reported by
  \<open>GetC\<close>, \<open>GetH\<close>, \<open>GetW\<close> and the element size, reduced modulo \<open>2 ^ 64\<close>;
  whenever that product lies in the range of \<open>size_t\<close> the value returned is exactly
  the product.
\<close>

theorem GetOutputSize_bytes:
  "uint (GetOutputSize dt L N) =
     (sint N * sint (GetC L) * sint (GetH L) * sint (GetW L) * uint (sizeof dt)) mod 2 ^ 64
   \<and> (0 \<le> sint N * sint (GetC L) * sint (GetH L) * sint (GetW L) * uint (sizeof dt)
        \<and> sint N * sint (GetC L) * sint (GetH L) * sint (GetW L) * uint (sizeof dt) < 2 ^ 64
      \<longrightarrow> uint (GetOutputSize dt L N) =
            sint N * sint (GetC L) * sint (GetH L) * sint (GetW L) * uint (sizeof dt))"
proof -
  have "uint (sizeof dt) * sint N * sint (C L) * sint (H L) * sint (W L)
      = sint N * sint (GetC L) * sint (GetH L) * sint (GetW L) * uint (sizeof dt)"
    by (simp add: GetC_def GetH_def GetW_def mult.commute)
  then have m: "uint (GetOutputSize dt L N) =
      (sint N * sint (GetC L) * sint (GetH L) * sint (GetW L) * uint (sizeof dt)) mod 2 ^ 64"
    by (simp only: uint_GetOutputSize)
  show ?thesis
    using m by simp
qed

text \<open>
  The fused convolution with 256 channels on the 8 by 8 board, 32-bit elements, a batch
  of 512: the product is in range and the buffer has \<open>512 * 256 * 8 * 8 * 4\<close> bytes.
\<close>

theorem GetOutputSize_bytes_witness:
  "0 \<le> sint (512 :: int32) * sint (GetC conv256) * sint (GetH conv256) * sint (GetW conv256)
          * uint (sizeof float)
   \<and> sint (512 :: int32) * sint (GetC conv256) * sint (GetH conv256) * sint (GetW conv256)
          * uint (sizeof float) < 2 ^ 64
   \<and> uint (GetOutputSize float conv256 512) = 33554432"
proof -
  have h: "0 \<le> sint (512 :: int32) * sint (GetC conv256) * sint (GetH conv256)
               * sint (GetW conv256) * uint (sizeof float)
         \<and> sint (512 :: int32) * sint (GetC conv256) * sint (GetH conv256)
               * sint (GetW conv256) * uint (sizeof float) < 2 ^ 64"
    by (simp add: conv256_def GetC_def GetH_def GetW_def)
  have "uint (GetOutputSize float conv256 512) =
      sint (512 :: int32) * sint (GetC conv256) * sint (GetH conv256) * sint (GetW conv256)
        * uint (sizeof float)"
    by (rule GetOutputSize_bytes [of float conv256 512, THEN conjunct2, THEN mp, OF h])
  also have "\<dots> = 33554432"
    by (simp add: conv256_def GetC_def GetH_def GetW_def)
  finally show ?thesis
    using h by blast
qed

text \<open>
  The unreduced product is not what is returned once it leaves the range of \<open>size_t\<close>:
  with \<open>N = C = H = W = 65536\<close> and 4-byte elements the product is \<open>2 ^ 66\<close>,
  and \<open>GetOutputSize\<close> returns 0.
\<close>

theorem GetOutputSize_exact_counterexample:
  "uint (GetOutputSize float (huge_layer 65536) 65536) \<noteq>
     sint (65536 :: int32) * sint (GetC (huge_layer 65536)) * sint (GetH (huge_layer 65536))
       * sint (GetW (huge_layer 65536)) * uint (sizeof float)"
  by (simp add: GetOutputSize_def huge_layer_def GetC_def GetH_def GetW_def)

subsection \<open>C10: GetOutputSize as a function of the batch size\<close>

text \<open>
  C10. \<open>GetOutputSize\<close> reads the shape and the batch size only: overwriting the
  layout flag \<open>nhwc_\<close> does not change its value, and its value is that of a bare
  \<open>BaseLayer\<close> of the same shape, whatever the other members hold. It returns 0 for
  \<open>N = 0\<close>. It is additive in the batch size: for non-negative batch sizes \<open>N1\<close>,
  \<open>N2\<close> and their sum, itself a batch size (an \<open>int\<close>, so at most \<open>2 ^ 31 - 1\<close>),
  \<open>GetOutputSize(N1 + N2) = GetOutputSize(N1) + GetOutputSize(N2)\<close>, both sides
  being values of \<open>size_t\<close>.
\<close>

theorem GetOutputSize_batch:
  "GetOutputSize dt (L\<lparr>nhwc_ := b\<rparr>) N = GetOutputSize dt L N
   \<and> GetOutputSize dt L N =
       GetOutputSize dt \<lparr>cache_ = p, input_ = q, C = GetC L, H = GetH L, W = GetW L, nhwc_ = b\<rparr> N
   \<and> GetOutputSize dt L 0 = 0
   \<and> (0 \<le> sint N1 \<and> 0 \<le> sint N2 \<and> sint N1 + sint N2 \<le> 2147483647
      \<longrightarrow> GetOutputSize dt L (N1 + N2) = GetOutputSize dt L N1 + GetOutputSize dt L N2)"
proof -
  have a: "GetOutputSize dt (L\<lparr>nhwc_ := b\<rparr>) N = GetOutputSize dt L N"
    by (simp add: GetOutputSize_def)
  have d: "GetOutputSize dt L N =
      GetOutputSize dt \<lparr>cache_ = p, input_ = q, C = GetC L, H = GetH L, W = GetW L, nhwc_ = b\<rparr> N"
    by (simp add: GetOutputSize_def GetC_def GetH_def GetW_def)
  have z: "GetOutputSize dt L 0 = 0"
    by (simp add: GetOutputSize_def)
  have s: "GetOutputSize dt L (N1 + N2) = GetOutputSize dt L N1 + GetOutputSize dt L N2"
    if "0 \<le> sint N1" "0 \<le> sint N2" "sint N1 + sint N2 \<le> 2147483647"
  proof -
    have "(scast (N1 + N2) :: size_t) = scast N1 + scast N2"
      using that by (intro scast_add_no_overflow) simp_all
    then show ?thesis
      by (simp only: GetOutputSize_def distrib_left distrib_right)
  qed
  from a d z s show ?thesis by blast
qed

text \<open>Batches of 256 and 768 positions of 16-bit elements through the fused convolution.\<close>

theorem GetOutputSize_batch_witness:
  "0 \<le> sint (256 :: int32) \<and> 0 \<le> sint (768 :: int32)
   \<and> sint (256 :: int32) + sint (768 :: int32) \<le> 2147483647
   \<and> GetOutputSize half conv256 (256 + 768) =
       GetOutputSize half conv256 256 + GetOutputSize half conv256 768"
proof -
  have h: "0 \<le> sint (256 :: int32) \<and> 0 \<le> sint (768 :: int32)
         \<and> sint (256 :: int32) + sint (768 :: int32) \<le> 2147483647"
    by simp
  have "GetOutputSize half conv256 (256 + 768) =
      GetOutputSize half conv256 256 + GetOutputSize half conv256 768"
    by (rule GetOutputSize_batch [of half True conv256 256 0 0 256 768,
          THEN conjunct2, THEN conjunct2, THEN conjunct2, THEN mp, OF h])
  with h show ?thesis by blast
qed

end
